theory Spec2Isabelle
  imports Complex_Main
begin

section \<open>Python values\<close>

text \<open>
  A Python \<open>str\<close> is a sequence of Unicode code points, so it is modelled as the list of
  its code points; \<open>ord c\<close> is then the element itself. String literals of the source are
  written with \<open>lit\<close>. A Python \<open>float\<close> is modelled as a real number: the model computes
  the exact quotient where Python computes the nearest double.
\<close>

type_synonym pystr = "nat list"

definition lit :: "string \<Rightarrow> pystr" where
  "lit s = map of_char s"

text \<open>\<open>sep.join(xs)\<close>.\<close>

fun join :: "pystr \<Rightarrow> pystr list \<Rightarrow> pystr" where
  "join sep [] = []"
| "join sep [x] = x"
| "join sep (x # y # ys) = x @ sep @ join sep (y # ys)"

text \<open>\<open>str(n)\<close> for a non-negative integer: its decimal digits.\<close>

fun str_nat :: "nat \<Rightarrow> pystr" where
  "str_nat n = (if n < 10 then [48 + n] else str_nat (n div 10) @ [48 + n mod 10])"

declare str_nat.simps [simp del]

section \<open>The embedder (\<open>maestro/memory/chroma_memory_service.py\<close>)\<close>

definition EMBED_DIM :: nat where
  "EMBED_DIM = 32"

definition embed_text :: "pystr \<Rightarrow> real list" where
  "embed_text text =
     (let vec = map (\<lambda>c. real (c mod 256) / 255) (take EMBED_DIM text)
      in if length vec < EMBED_DIM
         then vec @ replicate (EMBED_DIM - length vec) 0
         else vec)"

section \<open>Contents, events and sessions\<close>

text \<open>
  The fields of the library's \<open>Part\<close>, \<open>Content\<close>, \<open>Event\<close> and \<open>Session\<close> objects that the
  source reads. \<open>None\<close> stands for Python's \<open>None\<close>.
\<close>

record part =
  part_text :: "pystr option"

record content =
  role :: "pystr option"
  parts :: "part list option"

record event =
  author :: pystr
  content :: "content option"
  timestamp :: real

record session =
  session_id :: pystr
  app_name :: pystr
  user_id :: pystr
  events :: "event list"

text \<open>\<open>types.Part.from_text(text=t)\<close>.\<close>

definition from_text :: "pystr \<Rightarrow> part" where
  "from_text t = \<lparr>part_text = Some t\<rparr>"

text \<open>Truthiness of \<open>p.text\<close>: neither \<open>None\<close> nor the empty string.\<close>

definition truthy_text :: "part \<Rightarrow> bool" where
  "truthy_text p = (case part_text p of None \<Rightarrow> False | Some t \<Rightarrow> t \<noteq> [])"

text \<open>\<open>[p.text for p in ps if p.text]\<close>.\<close>

definition text_parts :: "part list \<Rightarrow> pystr list" where
  "text_parts ps = map (\<lambda>p. the (part_text p)) (filter truthy_text ps)"

text \<open>
  \<open>c and c.parts\<close>: the parts of a content that is present and has a non-empty list of
  parts, \<open>None\<close> where the source takes the \<open>continue\<close> branch.
\<close>

definition content_parts :: "content option \<Rightarrow> part list option" where
  "content_parts c =
     (case c of None \<Rightarrow> None
      | Some c' \<Rightarrow> (case parts c' of None \<Rightarrow> None
                   | Some ps \<Rightarrow> if ps = [] then None else Some ps))"

section \<open>The agent (\<open>maestro/agent.py\<close>)\<close>

record message =
  msg_role :: pystr
  msg_content :: pystr

record invocation_context =
  ctx_session :: session
  user_content :: "content option"

text \<open>The first loop of \<open>_run_async_impl\<close>: one message per event with text.\<close>

fun collect_messages :: "event list \<Rightarrow> message list \<Rightarrow> message list" where
  "collect_messages [] messages = messages"
| "collect_messages (e # es) messages =
     (case content_parts (content e) of
        None \<Rightarrow> collect_messages es messages
      | Some ps \<Rightarrow>
          (let t = join (lit '' '') (text_parts ps)
           in if t = [] then collect_messages es messages
              else collect_messages es
                     (messages @ [\<lparr>msg_role = author e, msg_content = t\<rparr>])))"

text \<open>The messages after the user content has been looked at.\<close>

definition with_user_content :: "content option \<Rightarrow> message list \<Rightarrow> message list" where
  "with_user_content uc messages =
     (case content_parts uc of
        None \<Rightarrow> messages
      | Some ps \<Rightarrow>
          (let user_text = join (lit '' '') (text_parts ps)
           in if user_text = [] then messages
              else messages @ [\<lparr>msg_role = lit ''user'', msg_content = user_text\<rparr>]))"

text \<open>The text of the event that \<open>_run_async_impl\<close> yields.\<close>

definition content_text :: "invocation_context \<Rightarrow> pystr" where
  "content_text ctx =
     (let messages = with_user_content (user_content ctx)
                       (collect_messages (events (ctx_session ctx)) [])
      in if messages = [] then []
         else lit ''Echo: '' @ msg_content (last messages))"

text \<open>
  \<open>_run_async_impl\<close>: the events it yields, exactly one. \<open>name\<close> is the agent's name and
  \<open>now\<close> the time stamp that the \<open>Event\<close> constructor takes from the clock.
\<close>

definition run_async_impl :: "pystr \<Rightarrow> real \<Rightarrow> invocation_context \<Rightarrow> event list" where
  "run_async_impl name now ctx =
     [\<lparr>author = name,
       content = Some \<lparr>role = None, parts = Some [from_text (content_text ctx)]\<rparr>,
       timestamp = now\<rparr>]"

section \<open>The vector collection\<close>

text \<open>
  The collection is an object of the vector-database library, which is not part of the
  sources. Its state is modelled as the list of the records it holds together with the log
  of the calls issued to it, so that "no call is issued" is a statement about the log.
\<close>

type_synonym metadata = "(string \<times> pystr) list"

record stored =
  rec_id :: pystr
  document :: pystr
  rec_metadata :: metadata
  embedding :: "real list"

datatype store_call =
  Add "pystr list" "pystr list" "metadata list" "real list list"
| Query "real list list" nat

text \<open>
  What the library does with a record whose id the collection already holds. The spec
  calls the write an upsert (\<open>Overwrite\<close>); the source calls the library's \<open>add\<close>, so
  the reading in which the record already held is kept (\<open>KeepExisting\<close>) is covered too.
\<close>

datatype dup_policy = Overwrite | KeepExisting

record collection =
  records :: "stored list"
  calls :: "store_call list"
  on_duplicate :: dup_policy
  metric :: "real list \<Rightarrow> real list \<Rightarrow> real"

fun put_record :: "dup_policy \<Rightarrow> stored \<Rightarrow> stored list \<Rightarrow> stored list" where
  "put_record pol r [] = [r]"
| "put_record pol r (x # xs) =
     (if rec_id x = rec_id r
      then (case pol of Overwrite \<Rightarrow> r # xs | KeepExisting \<Rightarrow> x # xs)
      else x # put_record pol r xs)"

fun put_records :: "dup_policy \<Rightarrow> stored list \<Rightarrow> stored list \<Rightarrow> stored list" where
  "put_records pol [] rs = rs"
| "put_records pol (b # bs) rs = put_records pol bs (put_record pol b rs)"

text \<open>The records of one batch call: the four parallel lists, zipped.\<close>

definition batch_records ::
  "pystr list \<Rightarrow> pystr list \<Rightarrow> metadata list \<Rightarrow> real list list \<Rightarrow> stored list" where
  "batch_records ids docs metas embs =
     map (\<lambda>(i, d, m, v). \<lparr>rec_id = i, document = d, rec_metadata = m, embedding = v\<rparr>)
         (zip ids (zip docs (zip metas embs)))"

text \<open>
  Modelled from the spec: the library's batch write (\<open>collection.add\<close>), absent from the
  sources. The collection is keyed by id and holds one record per id; the batch is
  written record by record and the call is logged.
\<close>

definition coll_add ::
  "collection \<Rightarrow> pystr list \<Rightarrow> pystr list \<Rightarrow> metadata list \<Rightarrow> real list list \<Rightarrow> collection" where
  "coll_add c ids docs metas embs =
     c\<lparr>records := put_records (on_duplicate c) (batch_records ids docs metas embs) (records c),
       calls := calls c @ [Add ids docs metas embs]\<rparr>"

text \<open>A value read from a result dictionary: the key may be absent or hold \<open>None\<close>.\<close>

datatype 'a field = Absent | PyNone | Present 'a

record query_result =
  documents :: "pystr list list field"
  metadatas :: "metadata list list field"

text \<open>The \<open>n\<close> records closest to \<open>q\<close>, closest first.\<close>

definition nearest :: "collection \<Rightarrow> real list \<Rightarrow> nat \<Rightarrow> stored list" where
  "nearest c q n = take n (sort_key (\<lambda>r. metric c q (embedding r)) (records c))"

text \<open>
  Modelled from the spec: the library's nearest-neighbour query (\<open>collection.query\<close>),
  absent from the sources. For each query vector it returns the documents and the
  metadata of the \<open>n\<close> closest records, ordered by the collection's distance ascending;
  the call is logged.
\<close>

definition coll_query :: "collection \<Rightarrow> real list list \<Rightarrow> nat \<Rightarrow> query_result \<times> collection" where
  "coll_query c qs n =
     (\<lparr>documents = Present (map (\<lambda>q. map document (nearest c q n)) qs),
       metadatas = Present (map (\<lambda>q. map rec_metadata (nearest c q n)) qs)\<rparr>,
      c\<lparr>calls := calls c @ [Query qs n]\<rparr>)"

section \<open>The memory service (\<open>maestro/memory/chroma_memory_service.py\<close>)\<close>

datatype error = HTTPException nat string | TypeError | IndexError | SessionNotFound

record batch =
  docs :: "pystr list"
  batch_metadatas :: "metadata list"
  ids :: "pystr list"
  embeddings :: "real list list"

definition empty_batch :: batch where
  "empty_batch = \<lparr>docs = [], batch_metadatas = [], ids = [], embeddings = []\<rparr>"

text \<open>
  The loop of \<open>add_session_to_memory\<close> over \<open>enumerate(session.events)\<close>.
  \<open>format_timestamp\<close> is the library's \<open>_utils.format_timestamp\<close>.
\<close>

fun add_loop :: "(real \<Rightarrow> pystr) \<Rightarrow> session \<Rightarrow> (nat \<times> event) list \<Rightarrow> batch \<Rightarrow> batch" where
  "add_loop format_timestamp s [] b = b"
| "add_loop format_timestamp s ((idx, e) # rest) b =
     (case content_parts (content e) of
        None \<Rightarrow> add_loop format_timestamp s rest b
      | Some ps \<Rightarrow>
          (let tp = text_parts ps
           in if tp = [] then add_loop format_timestamp s rest b
              else
                (let t = join (lit '' '') tp
                 in add_loop format_timestamp s rest
                      \<lparr>docs = docs b @ [t],
                       batch_metadatas = batch_metadatas b @
                         [[(''app_name'', app_name s),
                           (''user_id'', user_id s),
                           (''session_id'', session_id s),
                           (''author'', author e),
                           (''timestamp'', format_timestamp (timestamp e))]],
                       ids = ids b @ [session_id s @ lit ''-'' @ str_nat idx],
                       embeddings = embeddings b @ [embed_text t]\<rparr>)))"

definition add_session_to_memory ::
  "(real \<Rightarrow> pystr) \<Rightarrow> collection \<Rightarrow> session \<Rightarrow> collection" where
  "add_session_to_memory format_timestamp c s =
     (let b = add_loop format_timestamp s (enumerate 0 (events s)) empty_batch
      in if docs b = [] then c
         else coll_add c (ids b) (docs b) (batch_metadatas b) (embeddings b))"

record memory_entry =
  mem_content :: content
  mem_author :: "pystr option"
  mem_timestamp :: "pystr option"

text \<open>\<open>result.get(key, [])\<close>.\<close>

definition get_or_empty :: "'a list field \<Rightarrow> 'a list option" where
  "get_or_empty f = (case f of Absent \<Rightarrow> Some [] | PyNone \<Rightarrow> None | Present v \<Rightarrow> Some v)"

definition make_entry :: "pystr \<times> metadata \<Rightarrow> memory_entry" where
  "make_entry dm =
     \<lparr>mem_content = \<lparr>role = Some (lit ''user''), parts = Some [from_text (fst dm)]\<rparr>,
      mem_author = map_of (snd dm) ''author'',
      mem_timestamp = map_of (snd dm) ''timestamp''\<rparr>"

text \<open>
  The part of \<open>search_memory\<close> after the query: \<open>documents[0]\<close> and \<open>metadatas[0]\<close> are
  zipped when \<open>documents\<close> is a non-empty list; \<open>metadatas[0]\<close> raises when \<open>metadatas\<close>
  is \<open>None\<close> or empty.
\<close>

definition build_memories :: "query_result \<Rightarrow> error + memory_entry list" where
  "build_memories result =
     (case get_or_empty (documents result) of
        None \<Rightarrow> Inr []
      | Some [] \<Rightarrow> Inr []
      | Some (d0 # _) \<Rightarrow>
          (case get_or_empty (metadatas result) of
             None \<Rightarrow> Inl TypeError
           | Some [] \<Rightarrow> Inl IndexError
           | Some (m0 # _) \<Rightarrow> Inr (map make_entry (zip d0 m0))))"

definition search_memory ::
  "collection \<Rightarrow> pystr \<Rightarrow> pystr \<Rightarrow> pystr \<Rightarrow> (error + memory_entry list) \<times> collection" where
  "search_memory c app user query =
     (let (result, c') = coll_query c [embed_text query] 5
      in (build_memories result, c'))"

section \<open>The server (\<open>main.py\<close>)\<close>

definition APP_NAME :: pystr where
  "APP_NAME = lit ''maestro''"

definition USER_ID :: pystr where
  "USER_ID = lit ''user''"

text \<open>
  Modelled from the spec: the session registry (\<open>InMemorySessionService\<close>), absent from
  the sources. It creates sessions and looks them up by application, user and session id.
\<close>

type_synonym registry = "(pystr \<times> pystr \<times> pystr) \<rightharpoonup> session"

definition get_session :: "registry \<Rightarrow> pystr \<Rightarrow> pystr \<Rightarrow> pystr \<Rightarrow> session option" where
  "get_session reg app user sid = reg (app, user, sid)"

text \<open>
  Modelled from the spec: session creation in the registry, absent from the sources.
  \<open>new_id\<close> is the identifier the registry draws for the new session, whose history is
  empty.
\<close>

definition registry_create_session ::
  "registry \<Rightarrow> pystr \<Rightarrow> pystr \<Rightarrow> pystr \<Rightarrow> session \<times> registry" where
  "registry_create_session reg app user new_id =
     (let s = \<lparr>session_id = new_id, app_name = app, user_id = user, events = []\<rparr>
      in (s, reg((app, user, new_id) \<mapsto> s)))"

text \<open>\<open>POST /sessions\<close>: the id of the new session, and the registry.\<close>

definition create_session :: "registry \<Rightarrow> pystr \<Rightarrow> pystr \<times> registry" where
  "create_session reg new_id =
     (let (s, reg') = registry_create_session reg APP_NAME USER_ID new_id
      in (session_id s, reg'))"

text \<open>
  Modelled from the spec: the runner (\<open>Runner.run_async\<close>), absent from the sources. It
  resolves the session, appends the incoming user turn to its history and invokes the
  agent over the full history; the events it yields are the agent's.
\<close>

definition runner_run_async ::
  "real \<Rightarrow> registry \<Rightarrow> pystr \<Rightarrow> pystr \<Rightarrow> content \<Rightarrow> (error + event list) \<times> registry" where
  "runner_run_async now reg user sid new_message =
     (case get_session reg APP_NAME user sid of
        None \<Rightarrow> (Inl SessionNotFound, reg)
      | Some s \<Rightarrow>
          (let s' = s\<lparr>events := events s @
                      [\<lparr>author = lit ''user'', content = Some new_message, timestamp = now\<rparr>]\<rparr>
           in (Inr (run_async_impl APP_NAME now
                      \<lparr>ctx_session = s', user_content = Some new_message\<rparr>),
               reg((APP_NAME, user, sid) \<mapsto> s'))))"

text \<open>The loop of \<open>send_message\<close> over the events the runner yields.\<close>

fun collect_responses :: "event list \<Rightarrow> pystr list \<Rightarrow> pystr list" where
  "collect_responses [] responses = responses"
| "collect_responses (e # es) responses =
     (case content_parts (content e) of
        None \<Rightarrow> collect_responses es responses
      | Some [] \<Rightarrow> collect_responses es responses
      | Some (p # _) \<Rightarrow>
          (if truthy_text p then collect_responses es (responses @ [the (part_text p)])
           else collect_responses es responses))"

text \<open>
  \<open>POST /sessions/{session_id}/message\<close>: \<open>Inr\<close> is the \<open>response\<close> field of the 200
  answer, \<open>Inl\<close> the exception raised.
\<close>

definition send_message ::
  "real \<Rightarrow> registry \<Rightarrow> pystr \<Rightarrow> pystr \<Rightarrow> (error + pystr) \<times> registry" where
  "send_message now reg sid msg =
     (let new_message = \<lparr>role = Some (lit ''user''), parts = Some [from_text msg]\<rparr>;
          (run, reg') = runner_run_async now reg USER_ID sid new_message
      in case run of
           Inl e \<Rightarrow> (Inl e, reg')
         | Inr evs \<Rightarrow>
             (let responses = collect_responses evs []
              in if responses = [] then (Inl (HTTPException 500 ''No response from agent''), reg')
                 else (Inr (last responses), reg')))"

record memory_json =
  json_author :: "pystr option"
  json_text :: pystr
  json_timestamp :: "pystr option"

text \<open>One step of the loop of \<open>get_memory\<close> over \<open>result.memories\<close>.\<close>

definition memory_to_json :: "memory_entry \<Rightarrow> memory_json" where
  "memory_to_json m =
     \<lparr>json_author = mem_author m,
      json_text =
        (case content_parts (Some (mem_content m)) of
           None \<Rightarrow> []
         | Some [] \<Rightarrow> []
         | Some (p # _) \<Rightarrow> if truthy_text p then the (part_text p) else []),
      json_timestamp = mem_timestamp m\<rparr>"

text \<open>
  \<open>GET /sessions/{session_id}/memory\<close>: \<open>Inr\<close> is the \<open>memories\<close> field of the 200
  answer, \<open>Inl\<close> the exception raised. The collection is returned with its call log.
\<close>

definition get_memory ::
  "registry \<Rightarrow> collection \<Rightarrow> pystr \<Rightarrow> pystr \<Rightarrow> (error + memory_json list) \<times> collection" where
  "get_memory reg c sid query =
     (case get_session reg APP_NAME USER_ID sid of
        None \<Rightarrow> (Inl (HTTPException 404 ''Session not found''), c)
      | Some s \<Rightarrow>
          (let (result, c') = search_memory c (app_name s) (user_id s) query
           in case result of
                Inl e \<Rightarrow> (Inl e, c')
              | Inr memories \<Rightarrow> (Inr (map memory_to_json memories), c')))"

section \<open>The behaviour the specification describes\<close>

text \<open>
  The definitions of this section follow the words of the specification; the theorems
  compare them with the definitions above, which follow the source.
\<close>

text \<open>The space-joined non-empty text fragments of one history entry.\<close>

definition entry_text :: "content option \<Rightarrow> pystr" where
  "entry_text c =
     (case c of None \<Rightarrow> []
      | Some c' \<Rightarrow> (case parts c' of None \<Rightarrow> [] | Some ps \<Rightarrow> join (lit '' '') (text_parts ps)))"

text \<open>
  \<open>Agent.respond\<close>: \<open>"Echo: "\<close> and the text of the most recent entry that has text, the
  empty string when no entry has text.
\<close>

definition respond :: "content option list \<Rightarrow> pystr" where
  "respond history =
     (let texts = filter (\<lambda>t. t \<noteq> []) (map entry_text history)
      in if texts = [] then [] else lit ''Echo: '' @ last texts)"


text \<open>The memory record of the turn at index \<open>idx\<close> of a session.\<close>

definition record_of :: "(real \<Rightarrow> pystr) \<Rightarrow> session \<Rightarrow> nat \<Rightarrow> event \<Rightarrow> stored" where
  "record_of format_timestamp s idx e =
     \<lparr>rec_id = session_id s @ lit ''-'' @ str_nat idx,
      document = entry_text (content e),
      rec_metadata =
        [(''app_name'', app_name s),
         (''user_id'', user_id s),
         (''session_id'', session_id s),
         (''author'', author e),
         (''timestamp'', format_timestamp (timestamp e))],
      embedding = embed_text (entry_text (content e))\<rparr>"

text \<open>The records of the turns of a session that have non-empty text, in turn order.\<close>

definition session_records :: "(real \<Rightarrow> pystr) \<Rightarrow> session \<Rightarrow> stored list" where
  "session_records format_timestamp s =
     map (\<lambda>(idx, e). record_of format_timestamp s idx e)
         (filter (\<lambda>(idx, e). entry_text (content e) \<noteq> []) (enumerate 0 (events s)))"

section \<open>Auxiliary definitions\<close>

text \<open>The number that a string of decimal digits denotes.\<close>

definition digits_value :: "pystr \<Rightarrow> nat" where
  "digits_value ds = foldl (\<lambda>a d. 10 * a + (d - 48)) 0 ds"

text \<open>The squared Euclidean distance, a metric for the example collection.\<close>

definition sq_l2 :: "real list \<Rightarrow> real list \<Rightarrow> real" where
  "sq_l2 u v = sum_list (map (\<lambda>(a, b). (a - b) * (a - b)) (zip u v))"

text \<open>Example values: a collection, sessions and a registry.\<close>

definition demo_format_timestamp :: "real \<Rightarrow> pystr" where
  "demo_format_timestamp t = lit ''1970-01-01T00:00:00''"

definition demo_collection :: collection where
  "demo_collection = \<lparr>records = [], calls = [], on_duplicate = KeepExisting, metric = sq_l2\<rparr>"

definition demo_session :: session where
  "demo_session =
     \<lparr>session_id = lit ''s1'', app_name = APP_NAME, user_id = USER_ID,
      events =
        [\<lparr>author = lit ''user'',
          content = Some \<lparr>role = Some (lit ''user''), parts = Some [from_text (lit ''hi'')]\<rparr>,
          timestamp = 0\<rparr>,
         \<lparr>author = lit ''maestro'', content = None, timestamp = 1\<rparr>]\<rparr>"

definition silent_session :: session where
  "silent_session =
     \<lparr>session_id = lit ''s2'', app_name = APP_NAME, user_id = USER_ID,
      events =
        [\<lparr>author = lit ''user'',
          content = Some \<lparr>role = Some (lit ''user''), parts = Some [from_text []]\<rparr>,
          timestamp = 0\<rparr>,
         \<lparr>author = lit ''maestro'', content = None, timestamp = 1\<rparr>]\<rparr>"

definition foreign_session :: session where
  "foreign_session =
     \<lparr>session_id = lit ''s9'', app_name = lit ''other'', user_id = lit ''alice'',
      events =
        [\<lparr>author = lit ''alice'',
          content = Some \<lparr>role = Some (lit ''user''), parts = Some [from_text (lit ''secret'')]\<rparr>,
          timestamp = 0\<rparr>]\<rparr>"

definition demo_registry :: registry where
  "demo_registry =
     [(APP_NAME, USER_ID, lit ''s1'') \<mapsto> demo_session,
      (APP_NAME, USER_ID, lit ''s2'') \<mapsto> silent_session]"

section \<open>The embedder\<close>

lemma length_embed_text: "length (embed_text s) = 32"
  by (simp add: embed_text_def EMBED_DIM_def Let_def)

lemma embed_text_eq:
  "embed_text s = map (\<lambda>c. real (c mod 256) / 255) (take 32 s) @ replicate (32 - length s) 0"
  by (auto simp add: embed_text_def EMBED_DIM_def Let_def min_def)

text \<open>
  Claim C2. For every string, the embedding has length 32; it is the first 32 code points,
  each mapped to \<open>(code point mod 256) / 255\<close>, followed by zeros up to length 32; every
  component lies between 0 and 1; the code points after the first 32 are ignored; the
  embedding of the empty string is 32 zeros.
\<close>

theorem embed_text_spec:
  "length (embed_text s) = 32
   \<and> embed_text s = map (\<lambda>c. real (c mod 256) / 255) (take 32 s) @ replicate (32 - length s) 0
   \<and> (\<forall>i < 32. embed_text s ! i = (if i < length s then real (s ! i mod 256) / 255 else 0))
   \<and> (\<forall>x \<in> set (embed_text s). 0 \<le> x \<and> x \<le> 1)
   \<and> embed_text s = embed_text (take 32 s)
   \<and> embed_text [] = replicate 32 0"
proof -
  have len: "length (embed_text s) = 32" by (rule length_embed_text)
  have eq: "embed_text s = map (\<lambda>c. real (c mod 256) / 255) (take 32 s) @ replicate (32 - length s) 0"
    by (rule embed_text_eq)
  have nth: "\<forall>i < 32. embed_text s ! i = (if i < length s then real (s ! i mod 256) / 255 else 0)"
    by (auto simp add: eq nth_append)
  have rng: "\<forall>x \<in> set (embed_text s). 0 \<le> x \<and> x \<le> 1"
  proof
    fix x assume "x \<in> set (embed_text s)"
    then consider c where "x = real (c mod 256) / 255" | "x = 0"
      by (auto simp add: eq)
    then show "0 \<le> x \<and> x \<le> 1"
    proof cases
      case 1
      have "c mod 256 < 256" by simp
      then have "real (c mod 256) \<le> 255" by linarith
      then show ?thesis using 1 by simp
    qed simp
  qed
  have ign: "embed_text s = embed_text (take 32 s)"
    by (simp add: embed_text_def EMBED_DIM_def Let_def)
  have emp: "embed_text [] = replicate 32 0"
    by (simp add: embed_text_def EMBED_DIM_def)
  from len eq nth rng ign emp show ?thesis by blast
qed

theorem embed_text_spec_witness:
  "length (embed_text (lit ''hi'')) = 32
   \<and> (1::nat) < 32
   \<and> embed_text (lit ''hi'') ! 1 = 105 / 255
   \<and> embed_text (lit ''hi'') ! 2 = 0
   \<and> 105 / 255 \<in> set (embed_text (lit ''hi''))
   \<and> (0::real) \<le> 105 / 255 \<and> (105 / 255 :: real) \<le> 1"
proof -
  have l: "lit ''hi'' = [104, 105]" by (simp add: lit_def)
  have m: "(105 / 255 :: real) \<in> set (embed_text (lit ''hi''))"
    by (simp add: l embed_text_def EMBED_DIM_def)
  from embed_text_spec [of "lit ''hi''"] m show ?thesis
    by (simp add: l)
qed

section \<open>The agent\<close>

lemma join_eq_Nil: "[] \<notin> set xs \<Longrightarrow> join sep xs = [] \<longleftrightarrow> xs = []"
  by (induction sep xs rule: join.induct) auto

lemma text_parts_nonempty: "[] \<notin> set (text_parts ps)"
  by (auto simp add: text_parts_def truthy_text_def split: option.splits)

lemma join_text_parts_Nil: "join sep (text_parts ps) = [] \<longleftrightarrow> text_parts ps = []"
  by (rule join_eq_Nil) (rule text_parts_nonempty)

lemma content_parts_None: "content_parts c = None \<Longrightarrow> entry_text c = []"
  by (auto simp add: content_parts_def entry_text_def text_parts_def split: option.splits if_splits)

lemma content_parts_Some: "content_parts c = Some ps \<Longrightarrow> entry_text c = join (lit '' '') (text_parts ps)"
  by (auto simp add: content_parts_def entry_text_def split: option.splits if_splits)

lemma collect_messages_eq:
  "collect_messages es acc =
     acc @ map (\<lambda>e. \<lparr>msg_role = author e, msg_content = entry_text (content e)\<rparr>)
             (filter (\<lambda>e. entry_text (content e) \<noteq> []) es)"
  by (induction es arbitrary: acc)
     (auto simp add: Let_def content_parts_None content_parts_Some split: option.splits)

lemma with_user_content_eq:
  "with_user_content uc ms =
     ms @ (if entry_text uc = [] then [] else [\<lparr>msg_role = lit ''user'', msg_content = entry_text uc\<rparr>])"
  by (auto simp add: with_user_content_def Let_def content_parts_None content_parts_Some split: option.splits)

lemma content_text_eq:
  "content_text ctx = respond (map content (events (ctx_session ctx)) @ [user_content ctx])"
proof -
  let ?es = "events (ctx_session ctx)"
  let ?P = "\<lambda>e. entry_text (content e) \<noteq> []"
  let ?ts = "filter (\<lambda>t. t \<noteq> []) (map (\<lambda>e. entry_text (content e)) ?es)"
  have ts: "?ts = map (\<lambda>e. entry_text (content e)) (filter ?P ?es)"
    by (simp add: filter_map comp_def)
  show ?thesis
  proof (cases "entry_text (user_content ctx) = []")
    case True
    then show ?thesis
      by (cases "filter ?P ?es = []")
         (simp_all add: content_text_def respond_def Let_def collect_messages_eq
            with_user_content_eq filter_map comp_def last_map)
  next
    case False
    then show ?thesis
      by (simp add: content_text_def respond_def Let_def collect_messages_eq
            with_user_content_eq filter_map comp_def)
  qed
qed

lemma entry_text_single: "entry_text (Some \<lparr>role = r, parts = Some [from_text t]\<rparr>) = t"
  by (cases t) (simp_all add: entry_text_def text_parts_def truthy_text_def from_text_def)


section \<open>The batch of a session\<close>

lemma digits_value_str_nat: "digits_value (str_nat n) = n"
proof (induction n rule: str_nat.induct)
  case (1 n)
  show ?case
  proof (cases "n < 10")
    case True
    then show ?thesis by (subst str_nat.simps) (simp add: digits_value_def)
  next
    case False
    with 1 have "digits_value (str_nat (n div 10)) = n div 10" by simp
    with False show ?thesis
      by (subst str_nat.simps) (simp add: digits_value_def)
  qed
qed

lemma inj_str_nat: "str_nat m = str_nat n \<Longrightarrow> m = n"
  by (metis digits_value_str_nat)

lemma add_loop_eq:
  "add_loop fmt s ies b =
     (let R = map (\<lambda>(idx, e). record_of fmt s idx e)
                (filter (\<lambda>(idx, e). entry_text (content e) \<noteq> []) ies)
      in \<lparr>docs = docs b @ map document R,
          batch_metadatas = batch_metadatas b @ map rec_metadata R,
          ids = ids b @ map rec_id R,
          embeddings = embeddings b @ map embedding R\<rparr>)"
proof (induction ies arbitrary: b)
  case Nil
  show ?case by simp
next
  case (Cons ie ies)
  obtain idx e where ie: "ie = (idx, e)" by (cases ie)
  show ?case
  proof (cases "content_parts (content e)")
    case None
    then show ?thesis
      by (simp add: ie Cons.IH content_parts_None)
  next
    case (Some ps)
    then have et: "entry_text (content e) = join (lit '' '') (text_parts ps)"
      by (rule content_parts_Some)
    show ?thesis
    proof (cases "text_parts ps = []")
      case True
      with Some et show ?thesis by (simp add: ie Cons.IH)
    next
      case False
      then have "entry_text (content e) \<noteq> []"
        by (simp add: et join_text_parts_Nil)
      with Some False et show ?thesis
        by (simp add: ie Cons.IH Let_def record_of_def)
    qed
  qed
qed

lemma batch_records_maps:
  "batch_records (map rec_id R) (map document R) (map rec_metadata R) (map embedding R) = R"
  by (induction R) (simp_all add: batch_records_def)

lemma add_session_to_memory_eq:
  "add_session_to_memory fmt c s =
     (let R = session_records fmt s
      in if R = [] then c
         else coll_add c (map rec_id R) (map document R) (map rec_metadata R) (map embedding R))"
  by (simp add: add_session_to_memory_def add_loop_eq empty_batch_def Let_def session_records_def)

lemma distinct_session_ids: "distinct (map rec_id (session_records fmt s))"
proof -
  let ?ys = "filter (\<lambda>(idx, e). entry_text (content e) \<noteq> []) (enumerate 0 (events s))"
  have d: "distinct (map fst ?ys)"
    by (rule distinct_map_filter) simp
  have eq: "map rec_id (session_records fmt s)
        = map (\<lambda>i. session_id s @ lit ''-'' @ str_nat i) (map fst ?ys)"
    by (simp add: session_records_def record_of_def comp_def case_prod_unfold)
  have inj: "inj_on (\<lambda>i. session_id s @ lit ''-'' @ str_nat i) (set (map fst ?ys))"
    by (rule inj_onI) (simp add: inj_str_nat)
  show ?thesis
    unfolding eq using d inj by (simp only: distinct_map simp_thms)
qed


section \<open>Writing to the collection\<close>







lemma put_record_fresh:
  "rec_id r \<notin> rec_id ` set rs \<Longrightarrow> put_record pol r rs = rs @ [r]"
  by (induction rs) auto





lemma put_records_fresh:
  "distinct (map rec_id bs) \<Longrightarrow> rec_id ` set bs \<inter> rec_id ` set rs = {}
   \<Longrightarrow> put_records pol bs rs = rs @ bs"
proof (induction bs arbitrary: rs)
  case Nil
  show ?case by simp
next
  case (Cons b bs)
  from Cons.prems have fresh: "rec_id b \<notin> rec_id ` set rs" by auto
  from Cons.prems have "rec_id ` set bs \<inter> rec_id ` set (rs @ [b]) = {}" by auto
  with Cons.IH [of "rs @ [b]"] Cons.prems(1) fresh show ?case
    by (simp add: put_record_fresh)
qed


lemma records_coll_add:
  "records (coll_add c (map rec_id R) (map document R) (map rec_metadata R) (map embedding R))
     = put_records (on_duplicate c) R (records c)"
  by (simp add: coll_add_def batch_records_maps)

lemma records_add_session:
  "records (add_session_to_memory fmt c s)
     = put_records (on_duplicate c) (session_records fmt s) (records c)"
  by (simp add: add_session_to_memory_eq Let_def records_coll_add)





section \<open>Searching, and the server\<close>

lemma search_memory_eq:
  "search_memory c app user q =
     (Inr (map (\<lambda>r. make_entry (document r, rec_metadata r)) (nearest c (embed_text q) 5)),
      c\<lparr>calls := calls c @ [Query [embed_text q] 5]\<rparr>)"
  by (simp add: search_memory_def build_memories_def coll_query_def get_or_empty_def
        zip_map_map zip_same_conv_map comp_def)

lemma sorted_nearest:
  "sorted (map (\<lambda>r. metric c q (embedding r)) (nearest c q n))"
  by (simp add: nearest_def take_map [symmetric])

text \<open>
  Claim C4. \<open>search_memory\<close> issues one query to the collection, with the embedding of
  the query text and \<open>n_results = 5\<close>, and returns one entry per record the collection
  returns, in the collection's order: the document as the text of the entry, the author
  and the time stamp read from the record's metadata. There are at most 5 entries, and
  their distances to the query do not decrease along the list.
\<close>

theorem search_maps_ranked_results:
  "search_memory c app user q =
     (Inr (map (\<lambda>r. \<lparr>mem_content = \<lparr>role = Some (lit ''user''),
                                     parts = Some [from_text (document r)]\<rparr>,
                      mem_author = map_of (rec_metadata r) ''author'',
                      mem_timestamp = map_of (rec_metadata r) ''timestamp''\<rparr>)
            (nearest c (embed_text q) 5)),
      c\<lparr>calls := calls c @ [Query [embed_text q] 5]\<rparr>)
   \<and> length (nearest c (embed_text q) 5) \<le> 5
   \<and> sorted (map (\<lambda>r. metric c (embed_text q) (embedding r)) (nearest c (embed_text q) 5))"
  by (simp add: search_memory_eq make_entry_def sorted_nearest) (simp add: nearest_def)

lemma content_text_no_text:
  assumes "\<forall>e \<in> set (events (ctx_session ctx)). entry_text (content e) = []"
    and "entry_text (user_content ctx) = []"
  shows "content_text ctx = []"
  using assms by (simp add: content_text_eq respond_def filter_empty_conv)

lemma collect_responses_empty_text:
  "collect_responses [\<lparr>author = a, content = Some \<lparr>role = r, parts = Some [from_text []]\<rparr>,
                       timestamp = t\<rparr>] [] = []"
  by (simp add: content_parts_def from_text_def truthy_text_def)

text \<open>
  Claim C5. When no event of the history has text and the user content has none, the text
  the agent yields is empty; and when the session has no text and the message is the empty
  string, \<open>send_message\<close> raises the HTTP error 500 instead of answering.
\<close>

theorem no_text_gives_500:
  "((\<forall>e \<in> set (events (ctx_session ctx)). entry_text (content e) = [])
      \<and> entry_text (user_content ctx) = [] \<longrightarrow> content_text ctx = [])
   \<and> (get_session reg APP_NAME USER_ID sid = Some s
      \<and> (\<forall>e \<in> set (events s). entry_text (content e) = [])
      \<longrightarrow> fst (send_message now reg sid [])
           = Inl (HTTPException 500 ''No response from agent''))"
proof -
  have a: "content_text ctx = []"
    if "\<forall>e \<in> set (events (ctx_session ctx)). entry_text (content e) = []"
      and "entry_text (user_content ctx) = []"
    using that by (rule content_text_no_text)
  have b: "fst (send_message now reg sid []) = Inl (HTTPException 500 ''No response from agent'')"
    if s: "get_session reg APP_NAME USER_ID sid = Some s"
      and nt: "\<forall>e \<in> set (events s). entry_text (content e) = []"
  proof -
    let ?m = "\<lparr>role = Some (lit ''user''), parts = Some [from_text []]\<rparr>"
    let ?ctx = "\<lparr>ctx_session = s\<lparr>events := events s @
                    [\<lparr>author = lit ''user'', content = Some ?m, timestamp = now\<rparr>]\<rparr>,
                 user_content = Some ?m\<rparr>"
    have "content_text ?ctx = []"
      by (rule content_text_no_text) (simp_all add: nt entry_text_single)
    then have "run_async_impl APP_NAME now ?ctx =
        [\<lparr>author = APP_NAME, content = Some \<lparr>role = None, parts = Some [from_text []]\<rparr>,
          timestamp = now\<rparr>]"
      by (simp add: run_async_impl_def)
    then have "collect_responses (run_async_impl APP_NAME now ?ctx) [] = []"
      by (simp only: collect_responses_empty_text)
    with s show ?thesis
      by (simp add: send_message_def runner_run_async_def Let_def)
  qed
  from a b show ?thesis by blast
qed

theorem no_text_gives_500_witness:
  "get_session demo_registry APP_NAME USER_ID (lit ''s2'') = Some silent_session
   \<and> entry_text (content (events silent_session ! 0)) = []
   \<and> entry_text (content (events silent_session ! 1)) = []
   \<and> content_text \<lparr>ctx_session = silent_session, user_content = None\<rparr> = []
   \<and> fst (send_message 2 demo_registry (lit ''s2'') [])
       = Inl (HTTPException 500 ''No response from agent'')"
proof -
  have g: "get_session demo_registry APP_NAME USER_ID (lit ''s2'') = Some silent_session"
    by (simp add: get_session_def demo_registry_def)
  have e0: "entry_text (content (events silent_session ! 0)) = []"
    by (simp add: silent_session_def entry_text_single)
  have e1: "entry_text (content (events silent_session ! 1)) = []"
    by (simp add: silent_session_def entry_text_def)
  have all: "\<forall>e \<in> set (events silent_session). entry_text (content e) = []"
    by (simp add: silent_session_def entry_text_single) (simp add: entry_text_def)
  from no_text_gives_500 [of "\<lparr>ctx_session = silent_session, user_content = None\<rparr>"
      demo_registry "lit ''s2''" silent_session 2] g e0 e1 all
  show ?thesis by (simp add: entry_text_def)
qed

text \<open>
  Claim C8. When no turn of the session has text, \<open>add_session_to_memory\<close> leaves the
  collection as it is: its records are unchanged and no call is added to its log.
\<close>

theorem no_qualifying_turn_no_call:
  assumes "\<forall>e \<in> set (events s). entry_text (content e) = []"
  shows "add_session_to_memory fmt c s = c"
proof -
  have "filter (\<lambda>(idx, e). entry_text (content e) \<noteq> []) (enumerate 0 (events s)) = []"
    using assms by (auto simp add: filter_empty_conv in_set_enumerate_eq)
  then show ?thesis
    by (simp add: add_session_to_memory_eq session_records_def)
qed

theorem no_qualifying_turn_no_call_witness:
  "entry_text (content (events silent_session ! 0)) = []
   \<and> entry_text (content (events silent_session ! 1)) = []
   \<and> length (events silent_session) = 2
   \<and> add_session_to_memory demo_format_timestamp demo_collection silent_session = demo_collection
   \<and> calls (add_session_to_memory demo_format_timestamp demo_collection silent_session) = []"
proof -
  have e0: "entry_text (content (events silent_session ! 0)) = []"
    by (simp add: silent_session_def entry_text_single)
  have e1: "entry_text (content (events silent_session ! 1)) = []"
    by (simp add: silent_session_def entry_text_def)
  have all: "\<forall>e \<in> set (events silent_session). entry_text (content e) = []"
    by (simp add: silent_session_def entry_text_single) (simp add: entry_text_def)
  have c: "calls demo_collection = []" by (simp add: demo_collection_def)
  from no_qualifying_turn_no_call [OF all, of demo_format_timestamp demo_collection] e0 e1 c
  show ?thesis by (simp add: silent_session_def)
qed

lemma demo_session_records:
  "session_records demo_format_timestamp demo_session =
     [\<lparr>rec_id = lit ''s1-0'', document = lit ''hi'',
       rec_metadata =
         [(''app_name'', lit ''maestro''), (''user_id'', lit ''user''),
          (''session_id'', lit ''s1''), (''author'', lit ''user''),
          (''timestamp'', lit ''1970-01-01T00:00:00'')],
       embedding = embed_text (lit ''hi'')\<rparr>]"
proof -
  have s: "str_nat 0 = [48]" by (subst str_nat.simps) simp
  have e0: "entry_text (Some \<lparr>role = Some (lit ''user''), parts = Some [from_text (lit ''hi'')]\<rparr>)
              = lit ''hi''"
    by (rule entry_text_single)
  have n: "lit ''hi'' \<noteq> []" by (simp add: lit_def)
  have e1: "entry_text None = []" by (simp add: entry_text_def)
  show ?thesis
    by (simp add: session_records_def demo_session_def record_of_def enumerate_simps
          e0 e1 n s demo_format_timestamp_def APP_NAME_def USER_ID_def)
       (simp add: lit_def)
qed



lemma nearest_empty: "records c = [] \<Longrightarrow> nearest c q n = []"
  by (simp add: nearest_def)

text \<open>
  Claim C7. On a collection without records, \<open>search_memory\<close> returns the empty list and
  no error, and so does \<open>get_memory\<close> for a session that has just been created. Neither
  of the two changes the records of the collection.
\<close>

theorem search_empty_store:
  assumes "records c = []"
  shows "fst (search_memory c app user q) = Inr []
         \<and> fst (get_memory (snd (create_session reg new_id)) c (fst (create_session reg new_id)) q)
             = Inr []
         \<and> records (snd (search_memory c app user q)) = records c
         \<and> records (snd (get_memory reg' c sid q)) = records c"
proof -
  have a: "fst (search_memory c app user q) = Inr []" for app user
    using assms by (simp add: search_memory_eq nearest_empty)
  have b: "fst (get_memory (snd (create_session reg new_id)) c (fst (create_session reg new_id)) q)
             = Inr []"
    using assms
    by (simp add: get_memory_def create_session_def registry_create_session_def get_session_def
          Let_def search_memory_eq nearest_empty)
  have c: "records (snd (search_memory c app user q)) = records c"
    by (simp add: search_memory_eq)
  have d: "records (snd (get_memory reg' c sid q)) = records c"
    by (simp add: get_memory_def search_memory_eq split: option.splits)
  from a b c d show ?thesis by blast
qed

theorem search_empty_store_witness:
  "records demo_collection = []
   \<and> fst (search_memory demo_collection APP_NAME USER_ID (lit ''hi'')) = Inr []
   \<and> fst (get_memory (snd (create_session Map.empty (lit ''s1''))) demo_collection
            (fst (create_session Map.empty (lit ''s1''))) (lit ''hi'')) = Inr []"
proof -
  have h: "records demo_collection = []" by (simp add: demo_collection_def)
  from search_empty_store [OF h, of APP_NAME USER_ID "lit ''hi''" Map.empty "lit ''s1''"] h
  show ?thesis by blast
qed

lemma memory_to_json_make_entry:
  "memory_to_json (make_entry (d, m))
     = \<lparr>json_author = map_of m ''author'', json_text = d, json_timestamp = map_of m ''timestamp''\<rparr>"
  by (cases d) (simp_all add: memory_to_json_def make_entry_def content_parts_def from_text_def truthy_text_def)

lemma nearest_single: "records c = [r] \<Longrightarrow> nearest c q 5 = [r]"
  by (simp add: nearest_def)

text \<open>
  Claim C9. When the session id does not resolve to a session, \<open>get_memory\<close> raises the
  HTTP error 404 and leaves the collection as it is, its call log included. When the
  session exists, \<open>get_memory\<close> is \<open>search_memory\<close> on the caller's query text, with each
  entry mapped to its author, text and time stamp; one query is logged.
\<close>

theorem get_memory_404_or_search:
  "(get_session reg APP_NAME USER_ID sid = None
      \<longrightarrow> get_memory reg c sid q = (Inl (HTTPException 404 ''Session not found''), c))
   \<and> (get_session reg APP_NAME USER_ID sid = Some s
      \<longrightarrow> get_memory reg c sid q =
            (map_sum (\<lambda>e. e) (map memory_to_json) (fst (search_memory c (app_name s) (user_id s) q)),
             snd (search_memory c (app_name s) (user_id s) q))
          \<and> fst (get_memory reg c sid q) =
              Inr (map (\<lambda>r. \<lparr>json_author = map_of (rec_metadata r) ''author'',
                              json_text = document r,
                              json_timestamp = map_of (rec_metadata r) ''timestamp''\<rparr>)
                     (nearest c (embed_text q) 5))
          \<and> calls (snd (get_memory reg c sid q)) = calls c @ [Query [embed_text q] 5])"
  by (simp add: get_memory_def search_memory_eq memory_to_json_make_entry comp_def)

theorem get_memory_404_or_search_witness:
  "get_session demo_registry APP_NAME USER_ID (lit ''s7'') = None
   \<and> get_memory demo_registry demo_collection (lit ''s7'') (lit ''hi'')
       = (Inl (HTTPException 404 ''Session not found''), demo_collection)
   \<and> get_session demo_registry APP_NAME USER_ID (lit ''s1'') = Some demo_session
   \<and> fst (get_memory demo_registry
            (add_session_to_memory demo_format_timestamp demo_collection demo_session)
            (lit ''s1'') (lit ''hi''))
       = Inr [\<lparr>json_author = Some (lit ''user''), json_text = lit ''hi'',
               json_timestamp = Some (lit ''1970-01-01T00:00:00'')\<rparr>]"
proof -
  let ?c = "add_session_to_memory demo_format_timestamp demo_collection demo_session"
  have n: "get_session demo_registry APP_NAME USER_ID (lit ''s7'') = None"
    by (simp add: get_session_def demo_registry_def lit_def)
  have g: "get_session demo_registry APP_NAME USER_ID (lit ''s1'') = Some demo_session"
    by (simp add: get_session_def demo_registry_def lit_def)
  have "records ?c = session_records demo_format_timestamp demo_session"
    by (simp add: records_add_session demo_collection_def put_records_fresh distinct_session_ids)
  then have nr: "nearest ?c (embed_text (lit ''hi'')) 5
      = session_records demo_format_timestamp demo_session"
    by (simp add: demo_session_records nearest_single)
  from get_memory_404_or_search [of demo_registry "lit ''s7''" demo_collection "lit ''hi''"] n
  have a: "get_memory demo_registry demo_collection (lit ''s7'') (lit ''hi'')
       = (Inl (HTTPException 404 ''Session not found''), demo_collection)"
    by blast
  from get_memory_404_or_search [of demo_registry "lit ''s1''" ?c "lit ''hi''" demo_session] g
  have "fst (get_memory demo_registry ?c (lit ''s1'') (lit ''hi'')) =
      Inr (map (\<lambda>r. \<lparr>json_author = map_of (rec_metadata r) ''author'',
                      json_text = document r,
                      json_timestamp = map_of (rec_metadata r) ''timestamp''\<rparr>)
             (nearest ?c (embed_text (lit ''hi'')) 5))"
    by blast
  then have b: "fst (get_memory demo_registry ?c (lit ''s1'') (lit ''hi''))
       = Inr [\<lparr>json_author = Some (lit ''user''), json_text = lit ''hi'',
               json_timestamp = Some (lit ''1970-01-01T00:00:00'')\<rparr>]"
    by (simp add: nr demo_session_records)
  from n a g b show ?thesis by blast
qed

lemma foreign_session_records:
  "session_records demo_format_timestamp foreign_session =
     [\<lparr>rec_id = lit ''s9-0'', document = lit ''secret'',
       rec_metadata =
         [(''app_name'', lit ''other''), (''user_id'', lit ''alice''),
          (''session_id'', lit ''s9''), (''author'', lit ''alice''),
          (''timestamp'', lit ''1970-01-01T00:00:00'')],
       embedding = embed_text (lit ''secret'')\<rparr>]"
proof -
  have s: "str_nat 0 = [48]" by (subst str_nat.simps) simp
  have e0: "entry_text (Some \<lparr>role = Some (lit ''user''), parts = Some [from_text (lit ''secret'')]\<rparr>)
              = lit ''secret''"
    by (rule entry_text_single)
  have n: "lit ''secret'' \<noteq> []" by (simp add: lit_def)
  show ?thesis
    by (simp add: session_records_def foreign_session_def record_of_def enumerate_simps
          e0 n s demo_format_timestamp_def)
       (simp add: lit_def)
qed

text \<open>
  Claim C10. \<open>search_memory\<close> does not depend on the application name and the user id it
  is given, and \<open>get_memory\<close> answers the same for any two sessions that exist: the
  session id decides only between the error 404 and the search.
\<close>

theorem search_ignores_app_and_user:
  "search_memory c app1 user1 q = search_memory c app2 user2 q
   \<and> (get_session reg APP_NAME USER_ID sid1 = Some s1
       \<and> get_session reg APP_NAME USER_ID sid2 = Some s2
      \<longrightarrow> get_memory reg c sid1 q = get_memory reg c sid2 q)"
  by (simp add: get_memory_def search_memory_def)

theorem search_ignores_app_and_user_witness:
  "get_session demo_registry APP_NAME USER_ID (lit ''s1'') = Some demo_session
   \<and> get_session demo_registry APP_NAME USER_ID (lit ''s2'') = Some silent_session
   \<and> get_memory demo_registry
        (add_session_to_memory demo_format_timestamp demo_collection foreign_session)
        (lit ''s1'') (lit ''hi'')
       = get_memory demo_registry
           (add_session_to_memory demo_format_timestamp demo_collection foreign_session)
           (lit ''s2'') (lit ''hi'')
   \<and> fst (get_memory demo_registry
            (add_session_to_memory demo_format_timestamp demo_collection foreign_session)
            (lit ''s2'') (lit ''hi''))
       = Inr [\<lparr>json_author = Some (lit ''alice''), json_text = lit ''secret'',
               json_timestamp = Some (lit ''1970-01-01T00:00:00'')\<rparr>]"
proof -
  let ?c = "add_session_to_memory demo_format_timestamp demo_collection foreign_session"
  have g1: "get_session demo_registry APP_NAME USER_ID (lit ''s1'') = Some demo_session"
    by (simp add: get_session_def demo_registry_def lit_def)
  have g2: "get_session demo_registry APP_NAME USER_ID (lit ''s2'') = Some silent_session"
    by (simp add: get_session_def demo_registry_def lit_def)
  from search_ignores_app_and_user [of ?c _ _ "lit ''hi''" _ _ demo_registry "lit ''s1''"
      demo_session "lit ''s2''" silent_session] g1 g2
  have eq: "get_memory demo_registry ?c (lit ''s1'') (lit ''hi'')
       = get_memory demo_registry ?c (lit ''s2'') (lit ''hi'')"
    by blast
  have "records ?c = session_records demo_format_timestamp foreign_session"
    by (simp add: records_add_session demo_collection_def put_records_fresh distinct_session_ids)
  then have nr: "nearest ?c (embed_text (lit ''hi'')) 5
      = session_records demo_format_timestamp foreign_session"
    by (simp add: foreign_session_records nearest_single)
  have b: "fst (get_memory demo_registry ?c (lit ''s2'') (lit ''hi''))
       = Inr [\<lparr>json_author = Some (lit ''alice''), json_text = lit ''secret'',
               json_timestamp = Some (lit ''1970-01-01T00:00:00'')\<rparr>]"
    using g2
    by (simp add: get_memory_def search_memory_eq nr foreign_session_records
          memory_to_json_make_entry)
  from g1 g2 eq b show ?thesis by blast
qed

end
